theory Spec2Isabelle
  imports Main
begin

section \<open>The world of \<open>tools/compile_shaders.py\<close>\<close>

text \<open>
  The script reads the process environment, probes and changes the filesystem, launches
  an external compiler and prints to the console. Each of these is made explicit:
  \<^item> the filesystem is an association list from resolved absolute paths (lists of
    components below the root) to the kind of the node; the order of the list is the
    order in which a directory listing yields its entries. Symbolic links and
    permissions are not modelled, and \<open>..\<close> is resolved lexically;
  \<^item> the environment record carries what the script only reads: the answer of
    \<open>shutil.which("glslc.exe")\<close> (the search along \<open>PATH\<close> itself is the library's), the
    variables of \<open>os.environ\<close>, the working directory, and the external compiler as a
    function from a command line and a filesystem to the outcome of \<open>subprocess.run\<close> and
    the filesystem it leaves behind;
  \<^item> everything the script does to the outside is appended to a trace of events;
  \<^item> an exception of a library call that the script does not catch ends the program.
  Paths follow the POSIX flavour of \<open>pathlib\<close>; strings are ASCII text.
\<close>

subsection \<open>Strings\<close>

text \<open>\<open>str.split(sep)\<close> for a one-character separator: \<open>"a//b".split("/") = ["a", "", "b"]\<close>.\<close>

fun split_on :: "char \<Rightarrow> string \<Rightarrow> string list" where
  "split_on c [] = [[]]"
| "split_on c (x # xs) =
     (if x = c then [] # split_on c xs
      else (case split_on c xs of
              [] \<Rightarrow> [[x]]
            | w # ws \<Rightarrow> (x # w) # ws))"

text \<open>\<open>sep.join(xs)\<close>.\<close>

fun join :: "string \<Rightarrow> string list \<Rightarrow> string" where
  "join sep [] = []"
| "join sep [x] = x"
| "join sep (x # y # zs) = x @ sep @ join sep (y # zs)"

text \<open>\<open>s.rfind(c)\<close>: the index of the last occurrence, \<open>None\<close> for Python's \<open>-1\<close>.\<close>

fun rfind :: "string \<Rightarrow> char \<Rightarrow> nat option" where
  "rfind [] c = None"
| "rfind (x # xs) c =
     (case rfind xs c of
        Some i \<Rightarrow> Some (Suc i)
      | None \<Rightarrow> if x = c then Some 0 else None)"

text \<open>\<open>str.lower()\<close> on ASCII text: the letters \<open>A\<close> to \<open>Z\<close> are mapped, every other
  character is kept.\<close>

definition lower_char :: "char \<Rightarrow> char" where
  "lower_char c =
     (case map_of (zip ''ABCDEFGHIJKLMNOPQRSTUVWXYZ'' ''abcdefghijklmnopqrstuvwxyz'') c of
        Some d \<Rightarrow> d
      | None \<Rightarrow> c)"

definition lower :: "string \<Rightarrow> string" where
  "lower s = map lower_char s"

subsection \<open>Pure paths (\<open>pathlib.PurePosixPath\<close>)\<close>

record path =
  root :: string
  parts :: "string list"

text \<open>\<open>Path(s)\<close>: one leading slash or three and more give the root \<open>/\<close>, exactly two give
  \<open>//\<close>; empty components and \<open>.\<close> are dropped, \<open>..\<close> is kept.\<close>

definition Path :: "string \<Rightarrow> path" where
  "Path s =
     (let k = length (takeWhile (\<lambda>c. c = CHR ''/'') s);
          rel = drop k s
      in \<lparr> root = (if k = 0 then [] else if k = 2 then ''//'' else ''/''),
           parts = filter (\<lambda>x. x \<noteq> [] \<and> x \<noteq> ''.'') (split_on CHR ''/'' rel) \<rparr>)"

text \<open>\<open>p / s\<close>: an absolute right operand replaces the left one.\<close>

definition joinpath :: "path \<Rightarrow> string \<Rightarrow> path" where
  "joinpath p s =
     (let q = Path s
      in if root q \<noteq> [] then q else \<lparr> root = root p, parts = parts p @ parts q \<rparr>)"

text \<open>The child path that directory enumeration builds from an entry name.\<close>

definition make_child :: "path \<Rightarrow> string \<Rightarrow> path" where
  "make_child p n = \<lparr> root = root p, parts = parts p @ [n] \<rparr>"

text \<open>\<open>str(p)\<close>.\<close>

definition str :: "path \<Rightarrow> string" where
  "str p = (if root p = [] \<and> parts p = [] then ''.'' else root p @ join ''/'' (parts p))"

text \<open>\<open>p.name\<close>.\<close>

definition name :: "path \<Rightarrow> string" where
  "name p = (if parts p = [] then [] else last (parts p))"

text \<open>\<open>p.suffix\<close>: the part of the name from its last dot on, when that dot is neither the
  first nor the last character of the name.\<close>

definition suffix :: "path \<Rightarrow> string" where
  "suffix p =
     (let n = name p
      in case rfind n CHR ''.'' of
           None \<Rightarrow> []
         | Some i \<Rightarrow> if 0 < i \<and> i < length n - 1 then drop i n else [])"

subsection \<open>The filesystem\<close>

datatype kind = File | Dir

type_synonym abspath = "string list"

type_synonym filesystem = "(abspath \<times> kind) list"

datatype exn = FileExistsError | FileNotFoundError | NotADirectoryError | OSError

text \<open>The outcome of \<open>subprocess.run(cmd, capture_output=True, text=True)\<close>: a completed
  process with its return code and captured standard error, an exception of the launch,
  or a child that never exits (no timeout is passed).\<close>

datatype proc_outcome =
  Completed (returncode: int) (stderr: string)
| LaunchRaises exn
| Hangs

record env =
  which_glslc :: "string option"
  environ :: "string \<Rightarrow> string option"
  cwd :: abspath
  run_process :: "string list \<Rightarrow> filesystem \<Rightarrow> proc_outcome \<times> filesystem"

text \<open>How the operating system resolves a path: from the root or from the working
  directory, \<open>..\<close> going one component up (and staying at the root).\<close>

fun walk :: "abspath \<Rightarrow> string \<Rightarrow> abspath" where
  "walk acc c = (if c = ''..'' then butlast acc else acc @ [c])"

definition resolve :: "env \<Rightarrow> path \<Rightarrow> abspath" where
  "resolve e p = foldl walk (if root p \<noteq> [] then [] else cwd e) (parts p)"

text \<open>The root directory always exists.\<close>

definition lookup :: "filesystem \<Rightarrow> abspath \<Rightarrow> kind option" where
  "lookup fs k = (if k = [] then Some Dir else map_of fs k)"

text \<open>\<open>p.exists()\<close> and \<open>p.is_dir()\<close>.\<close>

definition exists :: "env \<Rightarrow> filesystem \<Rightarrow> path \<Rightarrow> bool" where
  "exists e fs p = (lookup fs (resolve e p) \<noteq> None)"

definition is_dir :: "env \<Rightarrow> filesystem \<Rightarrow> path \<Rightarrow> bool" where
  "is_dir e fs p = (lookup fs (resolve e p) = Some Dir)"

text \<open>\<open>os.listdir\<close>: the names of the entries directly inside a directory, in the order of
  the filesystem.\<close>

definition listdir :: "filesystem \<Rightarrow> abspath \<Rightarrow> string list" where
  "listdir fs d = map last (filter (\<lambda>k. k \<noteq> [] \<and> butlast k = d) (map fst fs))"

text \<open>\<open>p.iterdir()\<close>, called in the source only on a path that exists: it raises on a path
  that is not a directory.\<close>

definition iterdir :: "env \<Rightarrow> filesystem \<Rightarrow> path \<Rightarrow> exn + path list" where
  "iterdir e fs p =
     (case lookup fs (resolve e p) of
        None \<Rightarrow> Inl FileNotFoundError
      | Some File \<Rightarrow> Inl NotADirectoryError
      | Some Dir \<Rightarrow> Inr (map (make_child p) (listdir fs (resolve e p))))"

text \<open>\<open>p.glob("*")\<close>: every entry directly inside the directory, hidden ones too; nothing
  when the path is not a directory. The listing is read once, when the loop starts.\<close>

definition glob_star :: "env \<Rightarrow> filesystem \<Rightarrow> path \<Rightarrow> path list" where
  "glob_star e fs p =
     (if is_dir e fs p then map (make_child p) (listdir fs (resolve e p)) else [])"

text \<open>\<open>os.mkdir\<close>: the target must be new and its parent a directory. (A target that
  exists has a parent that is a directory, so an existing target is looked at first.)\<close>

definition os_mkdir :: "filesystem \<Rightarrow> abspath \<Rightarrow> exn + filesystem" where
  "os_mkdir fs k =
     (case lookup fs k of
        Some _ \<Rightarrow> Inl FileExistsError
      | None \<Rightarrow>
          (case lookup fs (butlast k) of
             None \<Rightarrow> Inl FileNotFoundError
           | Some File \<Rightarrow> Inl NotADirectoryError
           | Some Dir \<Rightarrow> Inr (fs @ [(k, Dir)])))"

text \<open>\<open>p.mkdir(exist_ok=True)\<close>, with \<open>parents\<close> left at \<open>False\<close>: a missing parent is raised
  again, any other error is swallowed exactly when the path is a directory.\<close>

definition mkdir_exist_ok :: "env \<Rightarrow> filesystem \<Rightarrow> path \<Rightarrow> exn + filesystem" where
  "mkdir_exist_ok e fs p =
     (case os_mkdir fs (resolve e p) of
        Inr fs' \<Rightarrow> Inr fs'
      | Inl FileNotFoundError \<Rightarrow> Inl FileNotFoundError
      | Inl x \<Rightarrow> if is_dir e fs p then Inr fs else Inl x)"

subsection \<open>Effects\<close>

datatype event = Print string | Mkdir path | Run "string list"

record state =
  files :: filesystem
  trace :: "event list"

definition print :: "string \<Rightarrow> state \<Rightarrow> state" where
  "print s st = st\<lparr> trace := trace st @ [Print s] \<rparr>"

text \<open>How a statement ends: normally, by an exception, or never.\<close>

datatype ctl = Normal | Raise exn | Hang

text \<open>How the process ends: \<open>sys.exit(n)\<close> or falling off the end of \<open>main\<close> (status 0), an
  uncaught exception (traceback, status 1), or never.\<close>

datatype outcome = Exited int | Uncaught exn | Hung


section \<open>The program\<close>

subsection \<open>\<open>find_glslc\<close>\<close>

text \<open>The loop of lines 41 to 44 over the entries of the default installation root.\<close>

fun search_sdk_dirs :: "env \<Rightarrow> filesystem \<Rightarrow> path list \<Rightarrow> path option" where
  "search_sdk_dirs e fs [] = None"
| "search_sdk_dirs e fs (p # ps) =
     (let guess = joinpath (joinpath p ''Bin'') ''glslc.exe''
      in if exists e fs guess then Some guess else search_sdk_dirs e fs ps)"

text \<open>Step 3, lines 38 to 46.\<close>

definition search_default :: "env \<Rightarrow> filesystem \<Rightarrow> exn + path option" where
  "search_default e fs =
     (let default_sdk_dir = Path ''C:/VulkanSDK''
      in if exists e fs default_sdk_dir
         then (case iterdir e fs default_sdk_dir of
                 Inl x \<Rightarrow> Inl x
               | Inr ps \<Rightarrow> Inr (search_sdk_dirs e fs ps))
         else Inr None)"

text \<open>Steps 2 and 3, lines 29 to 46: reached when the search path has no hit.\<close>

definition search_env :: "env \<Rightarrow> filesystem \<Rightarrow> exn + path option" where
  "search_env e fs =
     (case environ e ''VULKAN_SDK'' of
        Some vulkan_sdk \<Rightarrow>
          if vulkan_sdk \<noteq> []
          then (let guess = joinpath (joinpath (Path vulkan_sdk) ''Bin'') ''glslc.exe''
                in if exists e fs guess then Inr (Some guess) else search_default e fs)
          else search_default e fs
      | None \<Rightarrow> search_default e fs)"

text \<open>Lines 22 to 24, then the rest: \<open>if glslc:\<close> holds for a string that is not empty.\<close>

definition find_glslc :: "env \<Rightarrow> filesystem \<Rightarrow> exn + path option" where
  "find_glslc e fs =
     (case which_glslc e of
        Some glslc \<Rightarrow> if glslc \<noteq> [] then Inr (Some (Path glslc)) else search_env e fs
      | None \<Rightarrow> search_env e fs)"

subsection \<open>\<open>compile_shader\<close> and \<open>main\<close>\<close>

definition SHADER_DIR :: string where
  "SHADER_DIR = ''../shaders''"

definition OUT_DIR :: string where
  "OUT_DIR = ''../shaders''"

definition shader_exts :: "string set" where
  "shader_exts =
     {''.vert'', ''.frag'', ''.comp'', ''.geom'', ''.tesc'', ''.tese'',
      ''.mesh'', ''.task'', ''.rgen'', ''.rchit'', ''.rmiss''}"

definition compile_shader :: "env \<Rightarrow> path \<Rightarrow> path \<Rightarrow> path \<Rightarrow> state \<Rightarrow> ctl \<times> state" where
  "compile_shader e glslc_path input_path output_path st =
     (let cmd = [str glslc_path, str input_path, ''-o'', str output_path];
          result = run_process e cmd (files st);
          st1 = \<lparr> files = snd result, trace = trace st @ [Run cmd] \<rparr>
      in case fst result of
           Completed rc err \<Rightarrow>
             if rc \<noteq> 0
             then (Normal, print err (print (''[FAILED] '' @ str input_path) st1))
             else (Normal,
                   print (''[OK] '' @ name input_path @ '' -> '' @ name output_path) st1)
         | LaunchRaises x \<Rightarrow> (Raise x, st1)
         | Hangs \<Rightarrow> (Hang, st1))"

text \<open>The loop of lines 92 to 95: an exception or a hanging child ends it.\<close>

fun compile_loop :: "env \<Rightarrow> path \<Rightarrow> path \<Rightarrow> path list \<Rightarrow> state \<Rightarrow> ctl \<times> state" where
  "compile_loop e glslc output_dir [] st = (Normal, st)"
| "compile_loop e glslc output_dir (shader # rest) st =
     (if lower (suffix shader) \<in> shader_exts
      then (let out = joinpath output_dir (name shader @ ''.spv'')
            in case compile_shader e glslc shader out st of
                 (Normal, st') \<Rightarrow> compile_loop e glslc output_dir rest st'
               | (Raise x, st') \<Rightarrow> (Raise x, st')
               | (Hang, st') \<Rightarrow> (Hang, st'))
      else compile_loop e glslc output_dir rest st)"

text \<open>Lines 83 to 97, with the located compiler.\<close>

definition run_batch :: "env \<Rightarrow> path \<Rightarrow> state \<Rightarrow> outcome \<times> state" where
  "run_batch e glslc st =
     (let shader_dir = Path SHADER_DIR;
          output_dir = Path OUT_DIR;
          st1 = st\<lparr> trace := trace st @ [Mkdir output_dir] \<rparr>
      in case mkdir_exist_ok e (files st1) output_dir of
           Inl x \<Rightarrow> (Uncaught x, st1)
         | Inr fs' \<Rightarrow>
             (case compile_loop e glslc output_dir (glob_star e fs' shader_dir)
                     (st1\<lparr> files := fs' \<rparr>) of
                (Normal, st2) \<Rightarrow> (Exited 0, print ''Done.'' st2)
              | (Raise x, st2) \<Rightarrow> (Uncaught x, st2)
              | (Hang, st2) \<Rightarrow> (Hung, st2)))"

text \<open>Lines 74 to 81: a \<open>Path\<close> is always true, so \<open>not glslc\<close> holds for \<open>None\<close> alone.\<close>

definition main :: "env \<Rightarrow> filesystem \<Rightarrow> outcome \<times> state" where
  "main e fs =
     (let st = \<lparr> files = fs, trace = [] \<rparr>
      in case find_glslc e fs of
           Inl x \<Rightarrow> (Uncaught x, st)
         | Inr None \<Rightarrow>
             (Exited 1,
              print ''Make sure the Vulkan SDK is installed or glslc is in PATH.''
                (print ''ERROR: Could not locate glslc.exe on this system.'' st))
         | Inr (Some glslc) \<Rightarrow>
             run_batch e glslc (print (''Using glslc: '' @ str glslc) st))"


fun runs :: "event list \<Rightarrow> string list list" where
  "runs [] = []"
| "runs (Run cmd # evs) = cmd # runs evs"
| "runs (ev # evs) = runs evs"


section \<open>Vocabulary of the properties\<close>

subsection \<open>The batch\<close>


text \<open>The test of line 93.\<close>

definition selected :: "path \<Rightarrow> bool" where
  "selected shader = (lower (suffix shader) \<in> shader_exts)"

text \<open>The command line that lines 94 and 58 to 62 build for a shader.\<close>

definition command :: "path \<Rightarrow> path \<Rightarrow> string list" where
  "command glslc shader =
     [str glslc, str shader, ''-o'', str (joinpath (Path OUT_DIR) (name shader @ ''.spv''))]"

subsection \<open>The three search methods, in the words of the specification\<close>





subsection \<open>Example worlds\<close>

text \<open>A project with three files in its shader directory; the script runs in
  \<open>/proj/tools\<close>.\<close>

definition project_tree :: filesystem where
  "project_tree =
     [([''proj''], Dir), ([''proj'', ''tools''], Dir), ([''proj'', ''shaders''], Dir),
      ([''proj'', ''shaders'', ''a.vert''], File),
      ([''proj'', ''shaders'', ''b.frag''], File),
      ([''proj'', ''shaders'', ''c.txt''], File)]"

text \<open>An SDK below \<open>/sdk\<close>, and a default installation root with two versions, the second
  of which holds a compiler.\<close>

definition sdk_tree :: filesystem where
  "sdk_tree =
     [([''sdk''], Dir), ([''sdk'', ''Bin''], Dir), ([''sdk'', ''Bin'', ''glslc.exe''], File),
      ([''proj'', ''tools'', ''C:''], Dir),
      ([''proj'', ''tools'', ''C:'', ''VulkanSDK''], Dir),
      ([''proj'', ''tools'', ''C:'', ''VulkanSDK'', ''1.2''], Dir),
      ([''proj'', ''tools'', ''C:'', ''VulkanSDK'', ''1.3''], Dir),
      ([''proj'', ''tools'', ''C:'', ''VulkanSDK'', ''1.3'', ''Bin''], Dir),
      ([''proj'', ''tools'', ''C:'', ''VulkanSDK'', ''1.3'', ''Bin'', ''glslc.exe''], File)]"



text \<open>No shader directory yet.\<close>

definition fresh_tree :: filesystem where
  "fresh_tree = [([''proj''], Dir), ([''proj'', ''tools''], Dir)]"


text \<open>A compiler that rejects \<open>b.frag\<close> and accepts every other input, leaving the
  filesystem as it is.\<close>

definition fails_on_frag :: "string list \<Rightarrow> filesystem \<Rightarrow> proc_outcome \<times> filesystem" where
  "fails_on_frag cmd fs =
     (if cmd = [''/usr/bin/glslc.exe'', ''../shaders/b.frag'', ''-o'', ''../shaders/b.frag.spv'']
      then (Completed 1 ''b.frag: error'', fs)
      else (Completed 0 [], fs))"

text \<open>No compiler on the search path, no \<open>VULKAN_SDK\<close>.\<close>

definition bare_env :: env where
  "bare_env =
     \<lparr> which_glslc = None, environ = (\<lambda>v. None), cwd = [''proj'', ''tools''],
       run_process = fails_on_frag \<rparr>"

text \<open>\<open>VULKAN_SDK=/sdk\<close>.\<close>

definition sdk_env :: env where
  "sdk_env = bare_env\<lparr> environ := (\<lambda>v. if v = ''VULKAN_SDK'' then Some ''/sdk'' else None) \<rparr>"

text \<open>\<open>VULKAN_SDK=/sdk\<close>, and a compiler on the search path.\<close>

definition path_env :: env where
  "path_env = sdk_env\<lparr> which_glslc := Some ''/usr/bin/glslc.exe'' \<rparr>"

section \<open>Lemmas\<close>

subsection \<open>Evaluation of concrete worlds\<close>

lemmas path_defs = Path_def joinpath_def make_child_def str_def name_def suffix_def
  lower_def lower_char_def

lemmas fs_defs = resolve_def lookup_def exists_def is_dir_def listdir_def iterdir_def
  glob_star_def os_mkdir_def mkdir_exist_ok_def

lemmas example_defs = project_tree_def sdk_tree_def fails_on_frag_def bare_env_def
  sdk_env_def path_env_def

lemmas program_defs = main_def find_glslc_def run_batch_def compile_shader_def print_def
  SHADER_DIR_def OUT_DIR_def shader_exts_def Let_def

subsection \<open>Traces\<close>

lemma runs_append: "runs (xs @ ys) = runs xs @ runs ys"
  by (induction xs rule: runs.induct) simp_all



lemma compile_shader_runs:
  "runs (trace (snd (compile_shader e g i out st))) =
     runs (trace st) @ [[str g, str i, ''-o'', str out]]"
  by (simp add: compile_shader_def Let_def print_def runs_append split: proc_outcome.splits)




lemma compile_loop_runs_prefix:
  "\<exists>k. runs (trace (snd (compile_loop e g (Path OUT_DIR) ss st))) =
     runs (trace st) @ map (command g) (take k (filter selected ss))"
proof (induction ss arbitrary: st)
  case Nil
  then show ?case by simp
next
  case (Cons s ss)
  let ?out = "joinpath (Path OUT_DIR) (name s @ ''.spv'')"
  show ?case
  proof (cases "selected s")
    case False
    with Cons.IH [of st] show ?thesis by (simp add: selected_def)
  next
    case True
    obtain c st' where r: "compile_shader e g s ?out st = (c, st')"
      by (cases "compile_shader e g s ?out st")
    have t: "runs (trace st') = runs (trace st) @ [command g s]"
      using compile_shader_runs [of e g s ?out st] r by (simp add: command_def)
    show ?thesis
    proof (cases c)
      case Normal
      from Cons.IH [of st'] obtain k where
        "runs (trace (snd (compile_loop e g (Path OUT_DIR) ss st'))) =
           runs (trace st') @ map (command g) (take k (filter selected ss))" ..
      with r t True Normal have
        "runs (trace (snd (compile_loop e g (Path OUT_DIR) (s # ss) st))) =
           runs (trace st) @ map (command g) (take (Suc k) (filter selected (s # ss)))"
        by (simp add: selected_def Let_def)
      then show ?thesis ..
    next
      case (Raise x)
      with r t True have
        "runs (trace (snd (compile_loop e g (Path OUT_DIR) (s # ss) st))) =
           runs (trace st) @ map (command g) (take (Suc 0) (filter selected (s # ss)))"
        by (simp add: selected_def Let_def)
      then show ?thesis ..
    next
      case Hang
      with r t True have
        "runs (trace (snd (compile_loop e g (Path OUT_DIR) (s # ss) st))) =
           runs (trace st) @ map (command g) (take (Suc 0) (filter selected (s # ss)))"
        by (simp add: selected_def Let_def)
      then show ?thesis ..
    qed
  qed
qed


lemma main_found:
  "find_glslc e fs = Inr (Some g) \<Longrightarrow>
   main e fs = run_batch e g \<lparr> files = fs, trace = [Print (''Using glslc: '' @ str g)] \<rparr>"
  by (simp add: main_def print_def)

lemma run_batch_trace:
  assumes "mkdir_exist_ok e fs (Path OUT_DIR) = Inr fs1"
  shows "trace (snd (run_batch e g \<lparr> files = fs, trace = tr \<rparr>)) =
     (let r = compile_loop e g (Path OUT_DIR) (glob_star e fs1 (Path SHADER_DIR))
                \<lparr> files = fs1, trace = tr @ [Mkdir (Path OUT_DIR)] \<rparr>
      in if fst r = Normal then trace (snd r) @ [Print ''Done.''] else trace (snd r))"
proof -
  let ?r = "compile_loop e g (Path OUT_DIR) (glob_star e fs1 (Path SHADER_DIR))
                \<lparr> files = fs1, trace = tr @ [Mkdir (Path OUT_DIR)] \<rparr>"
  obtain c st2 where r: "?r = (c, st2)" by (cases ?r)
  with assms show ?thesis
    by (cases c) (simp_all add: run_batch_def Let_def print_def)
qed

subsection \<open>The locator\<close>









subsection \<open>Directories\<close>

lemma lookup_append:
  "lookup (fs @ gs) k = (case lookup fs k of Some v \<Rightarrow> Some v | None \<Rightarrow> map_of gs k)"
  by (simp add: lookup_def map_add_def split: option.splits)

lemma os_mkdir_new:
  "os_mkdir fs k = Inr fs1 \<Longrightarrow> fs1 = fs @ [(k, Dir)] \<and> lookup fs k = None"
  by (auto simp: os_mkdir_def split: option.splits kind.splits)

lemma lookup_new: "lookup fs k = None \<Longrightarrow> lookup (fs @ [(k, Dir)]) k = Some Dir"
  by (auto simp: lookup_def map_add_def split: if_splits)

lemma mkdir_exist_ok_is_dir:
  assumes "mkdir_exist_ok e fs p = Inr fs1"
  shows "is_dir e fs1 p"
proof (cases "os_mkdir fs (resolve e p)")
  case (Inr fs2)
  with assms have "fs1 = fs2" by (simp add: mkdir_exist_ok_def)
  with Inr show ?thesis using os_mkdir_new [of fs "resolve e p" fs2]
    by (simp add: is_dir_def lookup_new)
next
  case (Inl x)
  with assms show ?thesis
    by (cases x) (auto simp: mkdir_exist_ok_def split: if_splits)
qed


lemma same_directory: "Path SHADER_DIR = Path OUT_DIR"
  by (simp add: SHADER_DIR_def OUT_DIR_def)

lemma resolve_make_child:
  "n \<noteq> ''..'' \<Longrightarrow> resolve e (make_child p n) = resolve e p @ [n]"
  by (simp add: resolve_def make_child_def)

lemma listdir_append: "listdir (fs @ gs) d = listdir fs d @ listdir gs d"
  by (simp add: listdir_def)

lemma listdir_children: "listdir (map (\<lambda>n. (d @ [f n], File)) ns) d = map f ns"
  by (induction ns) (simp_all add: listdir_def)

lemma map_of_children: "map_of (map (\<lambda>n. (d @ [f n], File)) ns) d = None"
  by (induction ns) simp_all

lemma is_dir_children:
  "is_dir e (fs @ map (\<lambda>n. (resolve e p @ [f n], File)) ns) p = is_dir e fs p"
  by (simp add: is_dir_def lookup_append map_of_children split: option.splits)

subsection \<open>Names and suffixes\<close>

lemma split_on_no_sep: "c \<notin> set s \<Longrightarrow> split_on c s = [s]"
  by (induction s) auto

lemma Path_name: "CHR ''/'' \<notin> set s \<Longrightarrow> s \<noteq> [] \<Longrightarrow> s \<noteq> ''.'' \<Longrightarrow> Path s = \<lparr> root = [], parts = [s] \<rparr>"
proof -
  assume a: "CHR ''/'' \<notin> set s" "s \<noteq> []" "s \<noteq> ''.''"
  then have "takeWhile (\<lambda>c. c = CHR ''/'') s = []" by (cases s) auto
  with a show ?thesis by (simp add: Path_def split_on_no_sep)
qed

lemma joinpath_spv:
  "CHR ''/'' \<notin> set n \<Longrightarrow> joinpath p (n @ ''.spv'') = make_child p (n @ ''.spv'')"
proof -
  assume "CHR ''/'' \<notin> set n"
  then have "Path (n @ ''.spv'') = \<lparr> root = [], parts = [n @ ''.spv''] \<rparr>"
    by (intro Path_name) auto
  then show ?thesis by (simp add: joinpath_def make_child_def)
qed

lemma str_shader_child: "str (make_child (Path SHADER_DIR) n) = ''../shaders/'' @ n"
  by (simp add: SHADER_DIR_def path_defs)

lemma str_out_child: "str (make_child (Path OUT_DIR) n) = ''../shaders/'' @ n"
  by (simp add: OUT_DIR_def path_defs)

lemma name_make_child: "name (make_child p n) = n"
  by (simp add: name_def make_child_def)

lemma rfind_absent: "c \<notin> set s \<Longrightarrow> rfind s c = None"
  by (induction s) auto

lemma rfind_last_dot:
  "c \<notin> set r \<Longrightarrow> rfind (stem @ c # r) c = Some (length stem)"
  by (induction stem) (simp_all add: rfind_absent)

lemma suffix_stem:
  assumes "stem \<noteq> []" and "r \<noteq> []" and "CHR ''.'' \<notin> set r"
  shows "suffix (make_child p (stem @ CHR ''.'' # r)) = CHR ''.'' # r"
  using assms by (simp add: suffix_def name_make_child rfind_last_dot Let_def)

lemma suffix_dotfile:
  assumes "CHR ''.'' \<notin> set r"
  shows "suffix (make_child p (CHR ''.'' # r)) = []"
  using assms rfind_last_dot [of "CHR ''.''" r "[]"]
  by (simp add: suffix_def name_make_child Let_def)


lemma spv_not_shader_ext: "''.spv'' \<notin> shader_exts"
  by (simp add: shader_exts_def)

lemma empty_not_shader_ext: "[] \<notin> shader_exts"
  by (simp add: shader_exts_def)

lemma lower_spv: "lower ''.spv'' = ''.spv''"
  by (simp add: lower_def lower_char_def)

lemma output_not_selected: "\<not> selected (make_child p (n @ ''.spv''))"
proof (cases "n = []")
  case True
  have "suffix (make_child p (CHR ''.'' # ''spv'')) = []"
    by (rule suffix_dotfile) simp
  with True show ?thesis by (simp add: selected_def lower_def empty_not_shader_ext)
next
  case False
  have "suffix (make_child p (n @ CHR ''.'' # ''spv'')) = CHR ''.'' # ''spv''"
    using False by (intro suffix_stem) simp_all
  then show ?thesis by (simp add: selected_def lower_spv spv_not_shader_ext)
qed

lemma filter_outputs:
  "filter selected (map (make_child p) (map (\<lambda>n. n @ ''.spv'') ns)) = []"
  by (induction ns) (simp_all add: output_not_selected)

lemma output_key:
  assumes "CHR ''/'' \<notin> set n"
  shows "resolve e (joinpath (Path OUT_DIR) (n @ ''.spv'')) =
         resolve e (Path SHADER_DIR) @ [n @ ''.spv'']"
proof -
  have "n @ ''.spv'' \<noteq> ''..''" by (cases n) auto
  then show ?thesis using assms
    by (simp add: joinpath_spv resolve_make_child same_directory)
qed





subsection \<open>The whole program\<close>


lemma example_trace:
  "trace (snd (main path_env project_tree)) =
     [Print ''Using glslc: /usr/bin/glslc.exe'',
      Mkdir (Path ''../shaders''),
      Run [''/usr/bin/glslc.exe'', ''../shaders/a.vert'', ''-o'', ''../shaders/a.vert.spv''],
      Print ''[OK] a.vert -> a.vert.spv'',
      Run [''/usr/bin/glslc.exe'', ''../shaders/b.frag'', ''-o'', ''../shaders/b.frag.spv''],
      Print ''[FAILED] ../shaders/b.frag'',
      Print ''b.frag: error'',
      Print ''Done.'']"
  by (simp add: program_defs example_defs path_defs fs_defs)

section \<open>The properties of the specification\<close>

subsection \<open>The order of the search\<close>



subsection \<open>No compiler found\<close>




subsection \<open>The exit status of a batch\<close>




subsection \<open>Which entries are compiled\<close>



subsection \<open>The command line\<close>

text \<open>C5. Every command the program launches is the located executable followed by exactly
  three arguments: the path of an entry of the shader directory, the flag \<open>-o\<close>, and the
  output directory joined with the entry's name with \<open>.spv\<close> appended. As text the input is
  \<open>../shaders/<name>\<close> and, for a name without a slash, the output is
  \<open>../shaders/<name>.spv\<close>.\<close>

theorem compiler_arguments:
  assumes "find_glslc e fs = Inr (Some g)"
    and "mkdir_exist_ok e fs (Path OUT_DIR) = Inr fs1"
    and "cmd \<in> set (runs (trace (snd (main e fs))))"
  shows "\<exists>n. n \<in> set (listdir fs1 (resolve e (Path SHADER_DIR))) \<and>
           cmd = [str g, str (make_child (Path SHADER_DIR) n), ''-o'',
                  str (joinpath (Path OUT_DIR) (n @ ''.spv''))] \<and>
           str (make_child (Path SHADER_DIR) n) = ''../shaders/'' @ n \<and>
           (CHR ''/'' \<notin> set n \<longrightarrow>
              str (joinpath (Path OUT_DIR) (n @ ''.spv'')) = ''../shaders/'' @ n @ ''.spv'')"
proof -
  let ?st = "\<lparr> files = fs1,
      trace = [Print (''Using glslc: '' @ str g), Mkdir (Path OUT_DIR)] \<rparr>"
  let ?ss = "glob_star e fs1 (Path SHADER_DIR)"
  let ?r = "compile_loop e g (Path OUT_DIR) ?ss ?st"
  obtain k where k: "runs (trace (snd ?r)) =
      runs (trace ?st) @ map (command g) (take k (filter selected ?ss))"
    using compile_loop_runs_prefix [of e g ?ss ?st] ..
  have "trace (snd (main e fs)) =
      (if fst ?r = Normal then trace (snd ?r) @ [Print ''Done.''] else trace (snd ?r))"
    using assms(1,2) by (simp add: main_found run_batch_trace Let_def)
  then have "runs (trace (snd (main e fs))) = runs (trace (snd ?r))"
    by (simp add: runs_append)
  with k assms(3) have "cmd \<in> set (map (command g) (take k (filter selected ?ss)))"
    by simp
  then obtain s where s: "s \<in> set (take k (filter selected ?ss))" "cmd = command g s"
    by auto
  from s(1) have "s \<in> set ?ss" by (auto dest: in_set_takeD)
  then obtain n where n: "n \<in> set (listdir fs1 (resolve e (Path SHADER_DIR)))"
      "s = make_child (Path SHADER_DIR) n"
    by (auto simp: glob_star_def split: if_splits)
  have "cmd = [str g, str (make_child (Path SHADER_DIR) n), ''-o'',
                  str (joinpath (Path OUT_DIR) (n @ ''.spv''))]"
    using s(2) n(2) by (simp add: command_def name_make_child)
  moreover have "CHR ''/'' \<notin> set n \<longrightarrow>
      str (joinpath (Path OUT_DIR) (n @ ''.spv'')) = ''../shaders/'' @ n @ ''.spv''"
    by (simp add: joinpath_spv str_out_child)
  ultimately show ?thesis using n(1) str_shader_child by blast
qed

text \<open>C5, for the launch on \<open>a.vert\<close>.\<close>

theorem compiler_arguments_witness:
  "[''/usr/bin/glslc.exe'', ''../shaders/a.vert'', ''-o'', ''../shaders/a.vert.spv'']
      \<in> set (runs (trace (snd (main path_env project_tree)))) \<and>
   (\<exists>n. n \<in> set (listdir project_tree (resolve path_env (Path SHADER_DIR))) \<and>
      [''/usr/bin/glslc.exe'', ''../shaders/a.vert'', ''-o'', ''../shaders/a.vert.spv''] =
        [str (Path ''/usr/bin/glslc.exe''), ''../shaders/'' @ n, ''-o'',
         str (joinpath (Path OUT_DIR) (n @ ''.spv''))])"
proof -
  let ?cmd = "[''/usr/bin/glslc.exe'', ''../shaders/a.vert'', ''-o'', ''../shaders/a.vert.spv'']"
  have f: "find_glslc path_env project_tree = Inr (Some (Path ''/usr/bin/glslc.exe''))"
    by (simp add: find_glslc_def example_defs)
  have m: "mkdir_exist_ok path_env project_tree (Path OUT_DIR) = Inr project_tree"
    by (simp add: OUT_DIR_def example_defs path_defs fs_defs)
  have c: "?cmd \<in> set (runs (trace (snd (main path_env project_tree))))"
    by (simp add: example_trace)
  from compiler_arguments [OF f m c] c show ?thesis by auto
qed

subsection \<open>The report of each compilation\<close>




subsection \<open>The creation of the output directory\<close>



subsection \<open>Outputs are not inputs\<close>

text \<open>C8. \<open>.spv\<close> is not a recognised extension; the output path built for a name is
  never selected by the extension test; and the selected inputs of the shader directory
  are the same after output files for any names are added to it.\<close>

theorem outputs_never_selected:
  "''.spv'' \<notin> shader_exts \<and>
   (CHR ''/'' \<notin> set n \<longrightarrow>
      lower (suffix (joinpath (Path OUT_DIR) (n @ ''.spv''))) \<notin> shader_exts) \<and>
   (list_all (\<lambda>n. CHR ''/'' \<notin> set n) ns \<longrightarrow>
      filter (\<lambda>s. lower (suffix s) \<in> shader_exts)
        (glob_star e
           (fs @ map (\<lambda>n. (resolve e (joinpath (Path OUT_DIR) (n @ ''.spv'')), File)) ns)
           (Path SHADER_DIR)) =
      filter (\<lambda>s. lower (suffix s) \<in> shader_exts) (glob_star e fs (Path SHADER_DIR)))"
proof (intro conjI impI)
  show "''.spv'' \<notin> shader_exts" by (rule spv_not_shader_ext)
next
  assume "CHR ''/'' \<notin> set n"
  then show "lower (suffix (joinpath (Path OUT_DIR) (n @ ''.spv''))) \<notin> shader_exts"
    using output_not_selected [of "Path OUT_DIR" n] by (simp add: joinpath_spv selected_def)
next
  let ?d = "resolve e (Path SHADER_DIR)"
  let ?sel = "\<lambda>s. lower (suffix s) \<in> shader_exts"
  assume a: "list_all (\<lambda>n. CHR ''/'' \<notin> set n) ns"
  then have k: "map (\<lambda>n. (resolve e (joinpath (Path OUT_DIR) (n @ ''.spv'')), File)) ns =
      map (\<lambda>n. (?d @ [n @ ''.spv''], File)) ns"
    by (simp add: list_all_iff output_key)
  have s: "?sel = selected" by (simp add: selected_def fun_eq_iff)
  have d: "is_dir e (fs @ map (\<lambda>n. (?d @ [n @ ''.spv''], File)) ns) (Path SHADER_DIR) =
      is_dir e fs (Path SHADER_DIR)"
    by (rule is_dir_children)
  have l: "listdir (fs @ map (\<lambda>n. (?d @ [n @ ''.spv''], File)) ns) ?d =
      listdir fs ?d @ map (\<lambda>n. n @ ''.spv'') ns"
    by (simp add: listdir_append listdir_children)
  show "filter ?sel
        (glob_star e
           (fs @ map (\<lambda>n. (resolve e (joinpath (Path OUT_DIR) (n @ ''.spv'')), File)) ns)
           (Path SHADER_DIR)) =
      filter ?sel (glob_star e fs (Path SHADER_DIR))"
    unfolding k s glob_star_def d l using filter_outputs [of "Path SHADER_DIR" ns] by simp
qed

text \<open>C8, for the project after a run that wrote \<open>a.vert.spv\<close> and \<open>b.frag.spv\<close>.\<close>

theorem outputs_never_selected_witness:
  "lower (suffix (joinpath (Path OUT_DIR) ''a.vert.spv'')) \<notin> shader_exts \<and>
   map str (filter (\<lambda>s. lower (suffix s) \<in> shader_exts)
      (glob_star path_env
         (project_tree @ [([''proj'', ''shaders'', ''a.vert.spv''], File),
                          ([''proj'', ''shaders'', ''b.frag.spv''], File)])
         (Path SHADER_DIR))) =
     [''../shaders/a.vert'', ''../shaders/b.frag'']"
proof -
  let ?sel = "\<lambda>s. lower (suffix s) \<in> shader_exts"
  have n: "CHR ''/'' \<notin> set ''a.vert''" by simp
  have ns: "list_all (\<lambda>n. CHR ''/'' \<notin> set n) [''a.vert'', ''b.frag'']" by simp
  have k: "map (\<lambda>n. (resolve path_env (joinpath (Path OUT_DIR) (n @ ''.spv'')), File))
        [''a.vert'', ''b.frag''] =
      [([''proj'', ''shaders'', ''a.vert.spv''], File),
       ([''proj'', ''shaders'', ''b.frag.spv''], File)]"
    by (simp add: OUT_DIR_def example_defs path_defs fs_defs)
  have g: "map str (filter ?sel (glob_star path_env project_tree (Path SHADER_DIR))) =
      [''../shaders/a.vert'', ''../shaders/b.frag'']"
    by (simp add: SHADER_DIR_def shader_exts_def example_defs path_defs fs_defs)
  from outputs_never_selected [of "''a.vert''" "[''a.vert'', ''b.frag'']" path_env project_tree]
    n ns
  have "lower (suffix (joinpath (Path OUT_DIR) (''a.vert'' @ ''.spv''))) \<notin> shader_exts"
    and "filter ?sel (glob_star path_env
           (project_tree @ map (\<lambda>n. (resolve path_env (joinpath (Path OUT_DIR) (n @ ''.spv'')), File))
              [''a.vert'', ''b.frag''])
           (Path SHADER_DIR)) =
      filter ?sel (glob_star path_env project_tree (Path SHADER_DIR))"
    by blast+
  with k g show ?thesis by simp
qed

subsection \<open>The input directory exists\<close>

text \<open>C9. The input and the output directory are the same path. Therefore, whenever the
  creation of the output directory succeeds, the input directory exists and is a directory
  in the filesystem that the enumeration reads, and the loop of the program runs over the
  listing of that directory.\<close>

theorem input_directory_exists:
  "SHADER_DIR = OUT_DIR \<and>
   (mkdir_exist_ok e fs (Path OUT_DIR) = Inr fs1 \<longrightarrow>
      is_dir e fs1 (Path SHADER_DIR) \<and> exists e fs1 (Path SHADER_DIR) \<and>
      glob_star e fs1 (Path SHADER_DIR) =
        map (make_child (Path SHADER_DIR)) (listdir fs1 (resolve e (Path SHADER_DIR)))) \<and>
   (find_glslc e fs = Inr (Some g) \<and> mkdir_exist_ok e fs (Path OUT_DIR) = Inr fs1 \<longrightarrow>
      run_batch e g \<lparr> files = fs, trace = tr \<rparr> =
        (case compile_loop e g (Path OUT_DIR)
                (map (make_child (Path SHADER_DIR)) (listdir fs1 (resolve e (Path SHADER_DIR))))
                \<lparr> files = fs1, trace = tr @ [Mkdir (Path OUT_DIR)] \<rparr> of
           (Normal, st2) \<Rightarrow> (Exited 0, print ''Done.'' st2)
         | (Raise x, st2) \<Rightarrow> (Uncaught x, st2)
         | (Hang, st2) \<Rightarrow> (Hung, st2)))"
proof (intro conjI impI)
  show "SHADER_DIR = OUT_DIR" by (simp add: SHADER_DIR_def OUT_DIR_def)
next
  assume "mkdir_exist_ok e fs (Path OUT_DIR) = Inr fs1"
  then show d: "is_dir e fs1 (Path SHADER_DIR)"
    using mkdir_exist_ok_is_dir [of e fs "Path OUT_DIR" fs1] by (simp add: same_directory)
  then show "exists e fs1 (Path SHADER_DIR)" by (simp add: is_dir_def exists_def)
  from d show "glob_star e fs1 (Path SHADER_DIR) =
        map (make_child (Path SHADER_DIR)) (listdir fs1 (resolve e (Path SHADER_DIR)))"
    by (simp add: glob_star_def)
next
  assume a: "find_glslc e fs = Inr (Some g) \<and> mkdir_exist_ok e fs (Path OUT_DIR) = Inr fs1"
  then have "is_dir e fs1 (Path SHADER_DIR)"
    using mkdir_exist_ok_is_dir [of e fs "Path OUT_DIR" fs1] by (simp add: same_directory)
  then have "glob_star e fs1 (Path SHADER_DIR) =
        map (make_child (Path SHADER_DIR)) (listdir fs1 (resolve e (Path SHADER_DIR)))"
    by (simp add: glob_star_def)
  with a show "run_batch e g \<lparr> files = fs, trace = tr \<rparr> =
        (case compile_loop e g (Path OUT_DIR)
                (map (make_child (Path SHADER_DIR)) (listdir fs1 (resolve e (Path SHADER_DIR))))
                \<lparr> files = fs1, trace = tr @ [Mkdir (Path OUT_DIR)] \<rparr> of
           (Normal, st2) \<Rightarrow> (Exited 0, print ''Done.'' st2)
         | (Raise x, st2) \<Rightarrow> (Uncaught x, st2)
         | (Hang, st2) \<Rightarrow> (Hung, st2))"
    by (simp add: run_batch_def Let_def)
qed

text \<open>C9, in a project whose shader directory does not exist before the run.\<close>

theorem input_directory_exists_witness:
  "mkdir_exist_ok path_env fresh_tree (Path OUT_DIR) =
     Inr (fresh_tree @ [([''proj'', ''shaders''], Dir)]) \<and>
   \<not> exists path_env fresh_tree (Path SHADER_DIR) \<and>
   is_dir path_env (fresh_tree @ [([''proj'', ''shaders''], Dir)]) (Path SHADER_DIR) \<and>
   fst (run_batch path_env (Path ''/usr/bin/glslc.exe'') \<lparr> files = fresh_tree, trace = [] \<rparr>) =
     Exited 0"
proof -
  let ?g = "Path ''/usr/bin/glslc.exe''"
  let ?fs1 = "fresh_tree @ [([''proj'', ''shaders''], Dir)]"
  have m: "mkdir_exist_ok path_env fresh_tree (Path OUT_DIR) = Inr ?fs1"
    by (simp add: OUT_DIR_def fresh_tree_def example_defs path_defs fs_defs)
  have f: "find_glslc path_env fresh_tree = Inr (Some ?g)"
    by (simp add: find_glslc_def example_defs)
  have n: "\<not> exists path_env fresh_tree (Path SHADER_DIR)"
    by (simp add: SHADER_DIR_def fresh_tree_def example_defs path_defs fs_defs)
  have l: "listdir ?fs1 (resolve path_env (Path SHADER_DIR)) = []"
    by (simp add: SHADER_DIR_def fresh_tree_def example_defs path_defs fs_defs)
  note w = input_directory_exists [of path_env fresh_tree ?fs1 ?g "[]"]
  from w m have d: "is_dir path_env ?fs1 (Path SHADER_DIR)" by blast
  from w m f have "run_batch path_env ?g \<lparr> files = fresh_tree, trace = [] \<rparr> =
        (case compile_loop path_env ?g (Path OUT_DIR)
                (map (make_child (Path SHADER_DIR)) (listdir ?fs1 (resolve path_env (Path SHADER_DIR))))
                \<lparr> files = ?fs1, trace = [] @ [Mkdir (Path OUT_DIR)] \<rparr> of
           (Normal, st2) \<Rightarrow> (Exited 0, print ''Done.'' st2)
         | (Raise x, st2) \<Rightarrow> (Uncaught x, st2)
         | (Hang, st2) \<Rightarrow> (Hung, st2))"
    by blast
  then have r: "fst (run_batch path_env ?g \<lparr> files = fresh_tree, trace = [] \<rparr>) = Exited 0"
    by (simp add: l)
  from m n d r show ?thesis by blast
qed

subsection \<open>Selection by suffix alone\<close>




end
